theory Spec2Isabelle
  imports Complex_Main "HOL-Library.Sublist" "HOL-Library.Log_Nat"
begin

section \<open>Data model\<close>

text \<open>
  The script \<^verbatim>\<open>scripts/data_cleaning.py\<close> works on a pandas DataFrame. The rows of a
  DataFrame are modelled as a list, in load order, and a row as a record with one field
  per column the script reads or writes. A missing cell (NaN, NaT, None) is \<open>None\<close>.

  Numeric columns hold float64 values. A finite float64 is modelled by the rational
  number it denotes, so comparisons are exact. Arithmetic rounds its result to float64
  (section \<open>float64\<close>). The infinities and the sign of zero are not modelled: a cell is a
  finite number or missing, and a result too large for float64 is outside the model.
  A column of whole numbers is read as int64; below \<open>2 ^ 53\<close> in magnitude its
  arithmetic agrees with the float64 one.

  Text columns hold Python strings, modelled as ASCII \<open>char list\<close>. A date column holds
  raw text when it comes from the loader and timestamps after \<^verbatim>\<open>pd.to_datetime\<close>;
  a timestamp is modelled by a calendar date, a triple (year, month, day).
\<close>

type_synonym date = "nat \<times> nat \<times> nat"

datatype date_cell = Str string | Stamp date

record loan_record =
  loan_id :: "string option"
  customer_id :: "string option"
  loan_amount :: "rat option"
  annual_income :: "rat option"
  monthly_payment :: "rat option"
  interest_rate :: "rat option"
  credit_score :: "rat option"
  employment_length :: "rat option"
  loan_status :: "string option"
  purpose :: "string option"
  application_date :: "date_cell option"
  approval_date :: "date_cell option"
  disbursement_date :: "date_cell option"
  loan_term :: "rat option"
  loan_to_income :: "rat option"
  total_interest :: "rat option"
  loan_category :: "string option"
  credit_band :: "string option"

type_synonym table = "loan_record list"


text \<open>
  A DataFrame also carries a dtype per column. The script depends on it in one place:
  the \<^verbatim>\<open>.str\<close> accessor of a column raises \<^verbatim>\<open>AttributeError\<close> unless the column
  holds text (dtype \<^verbatim>\<open>object\<close>). So a frame is its rows together with the dtypes of
  the two columns the script uses \<^verbatim>\<open>.str\<close> on. Selecting rows and filling other
  columns keep these dtypes, so the stages that only do that are modelled on the rows.
\<close>

datatype dtype = Object | Float64

record frame =
  rows :: table
  loan_status_dtype :: dtype
  purpose_dtype :: dtype

text \<open>
  \<^verbatim>\<open>pd.read_csv\<close> types a column by its cells: a column with text in it is
  \<^verbatim>\<open>object\<close>, a column of a file without data rows is \<^verbatim>\<open>object\<close> too, and a column
  whose cells are all empty is \<^verbatim>\<open>float64\<close> (all NaN). \<open>read_csv\<close> is the frame the
  loader builds from the rows of a file.
\<close>

definition read_csv_dtype :: "string option list \<Rightarrow> dtype" where
  "read_csv_dtype col = (if col = [] \<or> (\<exists>c\<in>set col. c \<noteq> None) then Object else Float64)"

definition read_csv :: "table \<Rightarrow> frame" where
  "read_csv rs =
     \<lparr>rows = rs,
      loan_status_dtype = read_csv_dtype (map loan_status rs),
      purpose_dtype = read_csv_dtype (map purpose rs)\<rparr>"

section \<open>float64\<close>

text \<open>
  \<^verbatim>\<open>rint\<close>: the nearest integer, a tie going to the even one.
\<close>

definition rint :: "rat \<Rightarrow> int" where
  "rint x =
     (let f = \<lfloor>x\<rfloor>; d = x - of_int f in
      if d < 1 / 2 then f else if 1 / 2 < d then f + 1 else if even f then f else f + 1)"

text \<open>
  A float64 operation gives the exact result rounded to the nearest float64, a tie going
  to the even significand. \<open>float64_exponent x\<close> is the binary exponent of \<open>x\<close>, the
  \<open>e\<close> with \<open>2 ^ e \<le> \<bar>x\<bar> < 2 ^ (e + 1)\<close>. The significand has 53 bits, so the
  spacing of the float64 values around \<open>x\<close> is \<open>2 ^ (e - 52)\<close>, and \<open>2 ^ - 1074\<close> below
  the smallest normal number \<open>2 ^ - 1022\<close>. The overflow to an infinity above
  \<open>2 ^ 1024\<close> is not modelled.
\<close>

definition float64_exponent :: "rat \<Rightarrow> int" where
  "float64_exponent x =
     (let (p, q) = quotient_of \<bar>x\<bar>; d = bitlen p - bitlen q
      in if 2 powi d \<le> \<bar>x\<bar> then d else d - 1)"

definition round_to_float64 :: "rat \<Rightarrow> rat" where
  "round_to_float64 x =
     (if x = 0 then 0
      else (let e = max (float64_exponent x) (- 1022) - 52
            in of_int (rint (x / 2 powi e)) * 2 powi e))"

section \<open>remove_duplicates\<close>

text \<open>
  \<^verbatim>\<open>df.drop_duplicates(subset=['customer_id', 'loan_amount', 'application_date'])\<close>
  with the default \<^verbatim>\<open>keep='first'\<close>: a row is dropped when the values of the subset
  columns have been seen in an earlier row. pandas compares a missing value equal to a
  missing value here, as equality on \<open>option\<close> does.
\<close>

definition dedup_key :: "loan_record \<Rightarrow> string option \<times> rat option \<times> date_cell option" where
  "dedup_key r = (customer_id r, loan_amount r, application_date r)"

fun drop_duplicates :: "('a \<Rightarrow> 'k) \<Rightarrow> 'k list \<Rightarrow> 'a list \<Rightarrow> 'a list" where
  "drop_duplicates key seen [] = []"
| "drop_duplicates key seen (r # rs) =
     (if key r \<in> set seen then drop_duplicates key seen rs
      else r # drop_duplicates key (key r # seen) rs)"

definition remove_duplicates :: "table \<Rightarrow> table" where
  "remove_duplicates df = drop_duplicates dedup_key [] df"

text \<open>The count the function prints: \<^verbatim>\<open>initial_count - len(df)\<close>.\<close>

definition remove_duplicates_removed :: "table \<Rightarrow> int" where
  "remove_duplicates_removed df = int (length df) - int (length (remove_duplicates df))"

section \<open>handle_missing_values\<close>

text \<open>
  \<^verbatim>\<open>df.dropna(subset=critical_fields)\<close> drops a row when any of the four critical
  cells is missing.
\<close>

definition critical_present :: "loan_record \<Rightarrow> bool" where
  "critical_present r \<longleftrightarrow>
     loan_id r \<noteq> None \<and> customer_id r \<noteq> None \<and> loan_amount r \<noteq> None \<and> loan_status r \<noteq> None"

text \<open>
  \<^verbatim>\<open>Series.median()\<close> skips the missing cells; on no value at all it is NaN. For an
  odd number of values it is the middle one of the sorted values, for an even number the
  mean of the two middle ones, computed in float64: their sum, then its half.
\<close>

definition dropna_values :: "'a option list \<Rightarrow> 'a list" where
  "dropna_values col = List.map_filter (\<lambda>c. c) col"

definition median :: "rat option list \<Rightarrow> rat option" where
  "median col =
     (let s = sort (dropna_values col); n = length s in
      if n = 0 then None
      else if odd n then Some (s ! (n div 2))
      else Some (round_to_float64 (round_to_float64 (s ! (n div 2 - 1) + s ! (n div 2)) / 2)))"

text \<open>\<^verbatim>\<open>fillna(value)\<close> on one cell; filling with NaN leaves a missing cell missing.\<close>

definition fillna :: "'a option \<Rightarrow> 'a option \<Rightarrow> 'a option" where
  "fillna v c = (case c of None \<Rightarrow> v | Some x \<Rightarrow> Some x)"

text \<open>
  The two fills are written \<^verbatim>\<open>df[col].fillna(v, inplace=True)\<close>, an in-place fill of
  the column object that \<^verbatim>\<open>df[col]\<close> returns. What it does to \<^verbatim>\<open>df\<close> depends on the
  pandas that runs the script, and the script names no version, so the mode is a
  parameter \<open>copy_on_write\<close> of the model. Without copy-on-write (the default before
  pandas 3.0) the column object shares its data with the frame and the fill reaches the
  frame. With copy-on-write (pandas 3.0, or the option set) the column object is a copy
  and the frame keeps its missing cells.
\<close>

definition fillna_inplace ::
    "bool \<Rightarrow> (loan_record \<Rightarrow> loan_record) \<Rightarrow> table \<Rightarrow> table" where
  "fillna_inplace copy_on_write fill df = (if copy_on_write then df else map fill df)"

definition handle_missing_values :: "bool \<Rightarrow> table \<Rightarrow> table" where
  "handle_missing_values copy_on_write df0 =
     (let df = filter critical_present df0;
          df = (if \<exists>r\<in>set df. credit_score r = None
                then (let median_score = median (map credit_score df)
                      in fillna_inplace copy_on_write
                           (\<lambda>r. r\<lparr>credit_score := fillna median_score (credit_score r)\<rparr>) df)
                else df);
          df = (if \<exists>r\<in>set df. employment_length r = None
                then fillna_inplace copy_on_write
                       (\<lambda>r. r\<lparr>employment_length := fillna (Some 0) (employment_length r)\<rparr>) df
                else df)
      in df)"


section \<open>standardize_formats\<close>

text \<open>
  Python's \<^verbatim>\<open>str.lower\<close>, \<^verbatim>\<open>str.title\<close> and \<^verbatim>\<open>str.strip\<close> on ASCII text.
  \<^verbatim>\<open>title\<close> walks the string once: a character that follows a cased character is
  lower-cased, any other character is upper-cased, so a word starts after every
  character that is not a letter.
\<close>

definition py_isupper :: "char \<Rightarrow> bool" where
  "py_isupper c = (let n = (of_char c :: nat) in 65 \<le> n \<and> n \<le> 90)"

definition py_islower :: "char \<Rightarrow> bool" where
  "py_islower c = (let n = (of_char c :: nat) in 97 \<le> n \<and> n \<le> 122)"

definition py_iscased :: "char \<Rightarrow> bool" where
  "py_iscased c \<longleftrightarrow> py_isupper c \<or> py_islower c"

definition py_isspace :: "char \<Rightarrow> bool" where
  "py_isspace c = (let n = (of_char c :: nat) in (9 \<le> n \<and> n \<le> 13) \<or> (28 \<le> n \<and> n \<le> 32))"

definition lower_char :: "char \<Rightarrow> char" where
  "lower_char c = (if py_isupper c then char_of ((of_char c :: nat) + 32) else c)"

definition upper_char :: "char \<Rightarrow> char" where
  "upper_char c = (if py_islower c then char_of ((of_char c :: nat) - 32) else c)"

definition str_lower :: "string \<Rightarrow> string" where
  "str_lower s = map lower_char s"

fun title_from :: "bool \<Rightarrow> string \<Rightarrow> string" where
  "title_from previous_is_cased [] = []"
| "title_from previous_is_cased (c # cs) =
     (if previous_is_cased then lower_char c else upper_char c) # title_from (py_iscased c) cs"

definition str_title :: "string \<Rightarrow> string" where
  "str_title s = title_from False s"

definition str_strip :: "string \<Rightarrow> string" where
  "str_strip s = rev (dropWhile py_isspace (rev (dropWhile py_isspace s)))"

definition status_mapping :: "(string \<times> string) list" where
  "status_mapping =
     [(''fully paid'', ''Fully Paid''),
      (''current'', ''Current''),
      (''charged off'', ''Charged Off''),
      (''late (31-120 days)'', ''Late (31-120 days)''),
      (''late (16-30 days)'', ''Late (16-30 days)'')]"

definition dict_get :: "('k \<times> 'v) list \<Rightarrow> 'k \<Rightarrow> 'v \<Rightarrow> 'v" where
  "dict_get d k dflt = (case map_of d k of Some v \<Rightarrow> v | None \<Rightarrow> dflt)"

text \<open>
  \<^verbatim>\<open>lambda x: status_mapping.get(x, x.title())\<close>. \<^verbatim>\<open>Series.map\<close> calls it on every
  cell of the lower-cased column, also on a missing one, where \<^verbatim>\<open>x.title()\<close> raises
  \<^verbatim>\<open>AttributeError\<close> (NaN is a float).
\<close>

datatype error = AttributeError

definition status_lambda :: "string option \<Rightarrow> error + string option" where
  "status_lambda x =
     (case x of None \<Rightarrow> Inl AttributeError
      | Some s \<Rightarrow> Inr (Some (dict_get status_mapping s (str_title s))))"

fun series_map :: "('a \<Rightarrow> error + 'b) \<Rightarrow> 'a list \<Rightarrow> error + 'b list" where
  "series_map f [] = Inr []"
| "series_map f (x # xs) =
     (case f x of Inl e \<Rightarrow> Inl e
      | Inr y \<Rightarrow> (case series_map f xs of Inl e \<Rightarrow> Inl e | Inr ys \<Rightarrow> Inr (y # ys)))"

text \<open>
  \<^verbatim>\<open>pd.to_datetime(col, errors='coerce')\<close> on a column. The parser of date text belongs
  to pandas, so it is a parameter \<open>parse\<close> of the model. pandas may read one text
  differently in different columns (from version 2.0 it takes the format of a column from
  its first text cell and rejects the cells in another format), so the parser gets the
  text cells of the whole column besides the text to read. Text it rejects becomes NaT,
  a missing cell stays missing, a timestamp stays as it is.
\<close>

type_synonym parser = "string option list \<Rightarrow> string \<Rightarrow> date option"

definition column_text :: "date_cell option list \<Rightarrow> string option list" where
  "column_text col = map (\<lambda>c. case c of Some (Str s) \<Rightarrow> Some s | _ \<Rightarrow> None) col"

fun to_datetime_cell :: "(string \<Rightarrow> date option) \<Rightarrow> date_cell option \<Rightarrow> date_cell option" where
  "to_datetime_cell read None = None"
| "to_datetime_cell read (Some (Str s)) = map_option Stamp (read s)"
| "to_datetime_cell read (Some (Stamp d)) = Some (Stamp d)"

definition to_datetime :: "parser \<Rightarrow> date_cell option list \<Rightarrow> date_cell option list" where
  "to_datetime parse col = map (to_datetime_cell (parse (column_text col))) col"

text \<open>
  The \<^verbatim>\<open>.str\<close> accessor checks the dtype of the column before anything else. The column
  that \<^verbatim>\<open>map\<close> returns and the columns that \<^verbatim>\<open>.str.strip()\<close> returns are
  \<^verbatim>\<open>object\<close> columns.
\<close>

definition str_accessor :: "dtype \<Rightarrow> error + unit" where
  "str_accessor d = (if d = Object then Inr () else Inl AttributeError)"

definition standardize_formats :: "parser \<Rightarrow> frame \<Rightarrow> error + frame" where
  "standardize_formats parse df =
     (case str_accessor (loan_status_dtype df) of
        Inl e \<Rightarrow> Inl e
      | Inr _ \<Rightarrow>
     (case series_map status_lambda (map (\<lambda>r. map_option str_lower (loan_status r)) (rows df)) of
        Inl e \<Rightarrow> Inl e
      | Inr status \<Rightarrow>
     (case str_accessor (purpose_dtype df) of
        Inl e \<Rightarrow> Inl e
      | Inr _ \<Rightarrow>
          (let application = to_datetime parse (map application_date (rows df));
               approval = to_datetime parse (map approval_date (rows df));
               disbursement = to_datetime parse (map disbursement_date (rows df))
           in Inr \<lparr>rows =
                     map (\<lambda>(r, s, a, b, c). r\<lparr>
                            loan_status := map_option str_strip s,
                            purpose := map_option str_strip (purpose r),
                            application_date := a,
                            approval_date := b,
                            disbursement_date := c\<rparr>)
                       (zip (rows df) (zip status (zip application (zip approval disbursement)))),
                   loan_status_dtype = Object,
                   purpose_dtype = Object\<rparr>))))"

section \<open>validate_data_ranges\<close>

text \<open>A comparison with a missing cell is false, as a comparison with NaN is.\<close>

definition gt :: "rat option \<Rightarrow> rat \<Rightarrow> bool" where
  "gt c b = (case c of None \<Rightarrow> False | Some v \<Rightarrow> b < v)"

definition ge :: "rat option \<Rightarrow> rat \<Rightarrow> bool" where
  "ge c b = (case c of None \<Rightarrow> False | Some v \<Rightarrow> b \<le> v)"

definition le :: "rat option \<Rightarrow> rat \<Rightarrow> bool" where
  "le c b = (case c of None \<Rightarrow> False | Some v \<Rightarrow> v \<le> b)"

definition validate_data_ranges :: "table \<Rightarrow> table" where
  "validate_data_ranges df0 =
     (let df = filter (\<lambda>r. gt (loan_amount r) 0) df0;
          df = filter (\<lambda>r. ge (interest_rate r) 0 \<and> le (interest_rate r) 50) df;
          df = filter (\<lambda>r. ge (credit_score r) 300 \<and> le (credit_score r) 850) df;
          df = filter (\<lambda>r. gt (annual_income r) 0) df
      in df)"

text \<open>The count the function prints: \<^verbatim>\<open>initial_count - len(df)\<close>.\<close>

definition validate_data_ranges_removed :: "table \<Rightarrow> int" where
  "validate_data_ranges_removed df0 = int (length df0) - int (length (validate_data_ranges df0))"

section \<open>add_calculated_fields\<close>

text \<open>
  Arithmetic on cells, in float64: a missing operand gives a missing result, two numbers
  give the exact result rounded to float64. A float division by zero gives an infinity
  or NaN; the model has no infinities and gives a missing cell.
\<close>

definition cell_div :: "rat option \<Rightarrow> rat option \<Rightarrow> rat option" where
  "cell_div a b =
     (case (a, b) of (Some x, Some y) \<Rightarrow> if y = 0 then None else Some (round_to_float64 (x / y)) | _ \<Rightarrow> None)"

definition cell_mul :: "rat option \<Rightarrow> rat option \<Rightarrow> rat option" where
  "cell_mul a b = (case (a, b) of (Some x, Some y) \<Rightarrow> Some (round_to_float64 (x * y)) | _ \<Rightarrow> None)"

definition cell_sub :: "rat option \<Rightarrow> rat option \<Rightarrow> rat option" where
  "cell_sub a b = (case (a, b) of (Some x, Some y) \<Rightarrow> Some (round_to_float64 (x - y)) | _ \<Rightarrow> None)"

text \<open>
  \<^verbatim>\<open>Series.round(decimals)\<close> is numpy's, three float64 operations: multiply by
  \<open>10 ^ decimals\<close>, \<^verbatim>\<open>rint\<close>, divide by \<open>10 ^ decimals\<close>.
\<close>

definition round_decimals :: "nat \<Rightarrow> rat \<Rightarrow> rat" where
  "round_decimals decimals x =
     round_to_float64 (of_int (rint (round_to_float64 (x * 10 ^ decimals))) / 10 ^ decimals)"

text \<open>
  \<^verbatim>\<open>pd.cut(col, bins, labels)\<close> with the default \<^verbatim>\<open>right=True\<close>: the position of a
  value among the sorted bin edges is the number of edges below it
  (\<^verbatim>\<open>searchsorted(side='left')\<close>); position 0 and position \<open>len(bins)\<close> are outside
  every interval and give a missing cell, position \<open>i\<close> gives \<open>labels[i - 1]\<close>.
\<close>

datatype edge = Fin rat | PosInf

fun edge_less :: "edge \<Rightarrow> rat \<Rightarrow> bool" where
  "edge_less (Fin b) v = (b < v)"
| "edge_less PosInf v = False"

definition searchsorted_left :: "edge list \<Rightarrow> rat \<Rightarrow> nat" where
  "searchsorted_left bins v = length (takeWhile (\<lambda>b. edge_less b v) bins)"

definition cut :: "edge list \<Rightarrow> string list \<Rightarrow> rat option \<Rightarrow> string option" where
  "cut bins labels c =
     (case c of None \<Rightarrow> None
      | Some v \<Rightarrow>
          (let i = searchsorted_left bins v in
           if i = 0 \<or> i = length bins then None else Some (labels ! (i - 1))))"

definition add_calculated_fields :: "table \<Rightarrow> table" where
  "add_calculated_fields df =
     map (\<lambda>r. r\<lparr>
       loan_to_income := map_option (round_decimals 4) (cell_div (loan_amount r) (annual_income r)),
       total_interest := map_option (round_decimals 2)
          (cell_sub (cell_mul (monthly_payment r) (loan_term r)) (loan_amount r)),
       loan_category := cut [Fin 0, Fin 10000, Fin 25000, PosInf]
          [''Small'', ''Medium'', ''Large''] (loan_amount r),
       credit_band := cut [Fin 0, Fin 600, Fin 650, Fin 700, Fin 750, Fin 850]
          [''Very Poor'', ''Poor'', ''Fair'', ''Good'', ''Excellent''] (credit_score r)\<rparr>) df"

section \<open>main\<close>

text \<open>
  The five cleaning steps of \<^verbatim>\<open>main\<close>, in its order, on the frame the loader returns;
  an exception ends the run.
\<close>

definition main :: "bool \<Rightarrow> parser \<Rightarrow> frame \<Rightarrow> error + frame" where
  "main copy_on_write parse df0 =
     (let df = df0\<lparr>rows := remove_duplicates (rows df0)\<rparr>;
          df = df\<lparr>rows := handle_missing_values copy_on_write (rows df)\<rparr>
      in case standardize_formats parse df of
           Inl e \<Rightarrow> Inl e
         | Inr df \<Rightarrow>
             (let df = df\<lparr>rows := validate_data_ranges (rows df)\<rparr>;
                  df = df\<lparr>rows := add_calculated_fields (rows df)\<rparr>
              in Inr df))"

section \<open>Predicates of the specification\<close>

text \<open>
  The four range predicates of the RangeValidator as the specification words them:
  \<open>loan_amount > 0\<close>, \<open>0 \<le> interest_rate \<le> 50\<close>, \<open>300 \<le> credit_score \<le> 850\<close>,
  \<open>annual_income > 0\<close>, each on a value that is present.
\<close>

definition in_valid_ranges :: "loan_record \<Rightarrow> bool" where
  "in_valid_ranges r \<longleftrightarrow>
     (\<exists>a. loan_amount r = Some a \<and> 0 < a) \<and>
     (\<exists>i. interest_rate r = Some i \<and> 0 \<le> i \<and> i \<le> 50) \<and>
     (\<exists>c. credit_score r = Some c \<and> 300 \<le> c \<and> c \<le> 850) \<and>
     (\<exists>y. annual_income r = Some y \<and> 0 < y)"

text \<open>
  What \<open>standardize_formats\<close> does to one present status (lower-case, look up with the
  title-cased fallback, strip) and to one row, given the readers of the three date
  columns; the theorems below relate the column-wise function to this row-wise view.
\<close>

definition standardize_status :: "string \<Rightarrow> string" where
  "standardize_status s =
     str_strip (dict_get status_mapping (str_lower s) (str_title (str_lower s)))"

definition standardize_row ::
    "(string \<Rightarrow> date option) \<Rightarrow> (string \<Rightarrow> date option) \<Rightarrow> (string \<Rightarrow> date option) \<Rightarrow>
     loan_record \<Rightarrow> loan_record" where
  "standardize_row read_application read_approval read_disbursement r = r\<lparr>
     loan_status := map_option standardize_status (loan_status r),
     purpose := map_option str_strip (purpose r),
     application_date := to_datetime_cell read_application (application_date r),
     approval_date := to_datetime_cell read_approval (approval_date r),
     disbursement_date := to_datetime_cell read_disbursement (disbursement_date r)\<rparr>"












section \<open>Example rows\<close>

definition blank :: loan_record where
  "blank = \<lparr>loan_id = None, customer_id = None, loan_amount = None, annual_income = None,
     monthly_payment = None, interest_rate = None, credit_score = None,
     employment_length = None, loan_status = None, purpose = None,
     application_date = None, approval_date = None, disbursement_date = None,
     loan_term = None, loan_to_income = None, total_interest = None,
     loan_category = None, credit_band = None\<rparr>"

definition row_a :: loan_record where
  "row_a = blank\<lparr>loan_id := Some ''L1'', customer_id := Some ''C1'', loan_amount := Some 5000\<rparr>"

definition row_b :: loan_record where
  "row_b = blank\<lparr>loan_id := Some ''L2'', customer_id := Some ''C2'', loan_amount := Some 5000,
     application_date := Some (Str ''2023-01-05'')\<rparr>"

definition row_a2 :: loan_record where
  "row_a2 = blank\<lparr>loan_id := Some ''L3'', customer_id := Some ''C1'', loan_amount := Some 5000\<rparr>"

text \<open>A row that passes every stage.\<close>

definition row_ok :: loan_record where
  "row_ok = \<lparr>loan_id = Some ''L10'', customer_id = Some ''C10'', loan_amount = Some 12000,
     annual_income = Some 60000, monthly_payment = Some 500, interest_rate = Some 5,
     credit_score = Some 700, employment_length = Some 3, loan_status = Some ''  FULLY PAID '',
     purpose = Some '' car '', application_date = Some (Str ''2023-01-05''),
     approval_date = Some (Str ''2023-01-09''), disbursement_date = Some (Str ''soon''),
     loan_term = Some 36, loan_to_income = None, total_interest = None,
     loan_category = None, credit_band = None\<rparr>"

definition row_nocs :: loan_record where
  "row_nocs = row_ok\<lparr>loan_id := Some ''L11'', credit_score := None, employment_length := None\<rparr>"











text \<open>
  A parser for the examples: it reads the ISO form \<^verbatim>\<open>YYYY-MM-DD\<close> of a valid calendar
  date in the years 1678 to 2261 (inside the range of a pandas timestamp) and rejects
  every other text. \<^verbatim>\<open>pd.to_datetime\<close> reads more formats; it agrees with this parser on
  the ISO dates and on the words used in the examples below.
\<close>

definition digit_val :: "char \<Rightarrow> nat option" where
  "digit_val c = (let n = (of_char c :: nat) in if 48 \<le> n \<and> n \<le> 57 then Some (n - 48) else None)"

fun number_from :: "nat \<Rightarrow> string \<Rightarrow> nat option" where
  "number_from acc [] = Some acc"
| "number_from acc (c # cs) =
     (case digit_val c of None \<Rightarrow> None | Some d \<Rightarrow> number_from (10 * acc + d) cs)"

definition leap_year :: "nat \<Rightarrow> bool" where
  "leap_year y \<longleftrightarrow> y mod 4 = 0 \<and> (y mod 100 \<noteq> 0 \<or> y mod 400 = 0)"

definition days_in_month :: "nat \<Rightarrow> nat \<Rightarrow> nat" where
  "days_in_month y m =
     (if m = 2 then (if leap_year y then 29 else 28)
      else if m = 4 \<or> m = 6 \<or> m = 9 \<or> m = 11 then 30 else 31)"

definition iso_date :: "string \<Rightarrow> date option" where
  "iso_date s =
     (if length s = 10 \<and> s ! 4 = CHR ''-'' \<and> s ! 7 = CHR ''-'' then
        (case (number_from 0 (take 4 s), number_from 0 (take 2 (drop 5 s)), number_from 0 (drop 8 s)) of
           (Some y, Some m, Some d) \<Rightarrow>
             if 1678 \<le> y \<and> y \<le> 2261 \<and> 1 \<le> m \<and> m \<le> 12 \<and> 1 \<le> d \<and> d \<le> days_in_month y m
             then Some (y, m, d) else None
         | _ \<Rightarrow> None)
      else None)"

text \<open>The same parser for every column, whatever the other cells of the column are.\<close>

definition iso_parser :: parser where
  "iso_parser col s = iso_date s"

section \<open>Auxiliary facts about lists\<close>

lemma length_filter_compl:
  "int (length xs) - int (length (filter P xs)) = int (length (filter (\<lambda>x. \<not> P x) xs))"
  using sum_length_filter_compl[of P xs] by simp



section \<open>Facts about float64 rounding\<close>

lemma rint_close: "\<bar>of_int (rint x) - x\<bar> \<le> 1 / 2"
  unfolding rint_def Let_def by (auto simp: abs_if) linarith+


lemma bitlen_powi_bounds:
  assumes "0 < (p::int)"
  shows "(2::rat) powi (bitlen p - 1) \<le> of_int p" "(of_int p :: rat) < 2 powi (bitlen p)"
proof -
  from bitlen_bounds[OF assms] have a: "2 ^ nat (bitlen p - 1) \<le> p" and b: "p < 2 ^ nat (bitlen p)"
    by simp_all
  have n: "1 \<le> bitlen p"
  proof (rule ccontr)
    assume "\<not> 1 \<le> bitlen p"
    then have "nat (bitlen p) = 0" by simp
    with b assms show False by simp
  qed
  have "(of_int (2 ^ nat (bitlen p - 1)) :: rat) \<le> of_int p" using a by (simp only: of_int_le_iff)
  then show "(2::rat) powi (bitlen p - 1) \<le> of_int p" using n by (simp add: power_int_def)
  have "(of_int p :: rat) < of_int (2 ^ nat (bitlen p))" using b by (simp only: of_int_less_iff)
  then show "(of_int p :: rat) < 2 powi (bitlen p)" using n by (simp add: power_int_def)
qed

lemma float64_exponent_bounds:
  assumes "x \<noteq> 0"
  shows "2 powi (float64_exponent x) \<le> \<bar>x\<bar>" and "\<bar>x\<bar> < 2 powi (float64_exponent x + 1)"
proof -
  obtain p q where pq: "quotient_of \<bar>x\<bar> = (p, q)" by force
  have q: "0 < q" using pq by (rule quotient_of_denom_pos)
  have x: "\<bar>x\<bar> = of_int p / of_int q" using pq by (rule quotient_of_div)
  have p: "0 < p"
  proof (rule ccontr)
    assume "\<not> 0 < p"
    then have "of_int p / (of_int q :: rat) \<le> 0" using q by (simp add: divide_le_0_iff)
    with x assms show False by simp
  qed
  define d where "d = bitlen p - bitlen q"
  note bp = bitlen_powi_bounds[OF p] and bq = bitlen_powi_bounds[OF q]
  have qpos: "(0::rat) < of_int q" using q by simp
  have lo: "2 powi (d - 1) \<le> \<bar>x\<bar>"
  proof -
    have "(2::rat) powi (d - 1) = 2 powi (bitlen p - 1) / 2 powi (bitlen q)"
      unfolding d_def by (simp add: power_int_diff)
    also have "\<dots> \<le> of_int p / 2 powi (bitlen q)"
      using bp(1) by (simp add: divide_right_mono)
    also have "\<dots> \<le> of_int p / of_int q"
      using bq(2) p qpos by (simp add: frac_le)
    finally show ?thesis using x by simp
  qed
  have hi: "\<bar>x\<bar> < 2 powi (d + 1)"
  proof -
    have "of_int p / (of_int q :: rat) < 2 powi (bitlen p) / of_int q"
      using bp(2) qpos by (simp add: divide_strict_right_mono)
    also have "\<dots> \<le> 2 powi (bitlen p) / 2 powi (bitlen q - 1)"
      using bq(1) by (simp add: frac_le)
    also have "\<dots> = 2 powi (d + 1)"
      unfolding d_def by (simp add: power_int_diff power_int_add)
    finally show ?thesis using x by simp
  qed
  have e: "float64_exponent x = (if 2 powi d \<le> \<bar>x\<bar> then d else d - 1)"
    unfolding float64_exponent_def pq d_def by simp
  show "2 powi (float64_exponent x) \<le> \<bar>x\<bar>" using lo unfolding e by simp
  show "\<bar>x\<bar> < 2 powi (float64_exponent x + 1)" using hi unfolding e by auto
qed


text \<open>The spacing of the float64 values around \<open>x\<close>.\<close>

lemma round_to_float64_half_spacing:
  assumes "x \<noteq> 0"
  shows "\<bar>round_to_float64 x - x\<bar> \<le> 2 powi (max (float64_exponent x) (- 1022) - 52) / 2"
proof -
  define e where "e = max (float64_exponent x) (- 1022) - 52"
  have p: "(0::rat) < 2 powi e" by simp
  have "round_to_float64 x - x = (of_int (rint (x / 2 powi e)) - x / 2 powi e) * 2 powi e"
    using assms p by (simp add: round_to_float64_def Let_def e_def[symmetric] field_simps)
  then have "\<bar>round_to_float64 x - x\<bar> = \<bar>of_int (rint (x / 2 powi e)) - x / 2 powi e\<bar> * 2 powi e"
    using p by (simp add: abs_mult)
  also have "\<dots> \<le> (1 / 2) * 2 powi e"
    by (rule mult_right_mono[OF rint_close]) simp
  finally show ?thesis by (simp add: e_def)
qed

lemma round_to_float64_zero: "round_to_float64 0 = 0"
  by (simp add: round_to_float64_def)

lemma round_to_float64_error:
  "\<bar>round_to_float64 x - x\<bar> \<le> \<bar>x\<bar> * 2 powi (- 53) + 2 powi (- 1075)"
proof (cases "x = 0")
  case True
  then show ?thesis by (simp add: round_to_float64_zero)
next
  case False
  define E where "E = float64_exponent x"
  note h = round_to_float64_half_spacing[OF False, folded E_def]
  have lo: "2 powi E \<le> \<bar>x\<bar>" unfolding E_def by (rule float64_exponent_bounds(1)[OF False])
  have half: "\<And>k::int. (2::rat) powi k / 2 = 2 powi (k - 1)"
    by (simp add: power_int_diff)
  show ?thesis
  proof (cases "- 1022 \<le> E")
    case True
    then have "max E (- 1022) - 52 = E - 52" by simp
    with h have "\<bar>round_to_float64 x - x\<bar> \<le> 2 powi (E - 52 - 1)" by (simp only: half)
    also have "(2::rat) powi (E - 52 - 1) = 2 powi (E + (- 53))" by simp
    also have "\<dots> = 2 powi E * 2 powi (- 53)"
      by (rule power_int_add) simp
    also have "\<dots> \<le> \<bar>x\<bar> * 2 powi (- 53)"
      by (rule mult_right_mono[OF lo]) simp
    also have "\<dots> \<le> \<bar>x\<bar> * 2 powi (- 53) + 2 powi (- 1075)" by simp
    finally show ?thesis .
  next
    case False
    then have "max E (- 1022) - 52 = - 1074" by simp
    with h have "\<bar>round_to_float64 x - x\<bar> \<le> 2 powi (- 1074 - 1)" by (simp only: half)
    also have "(2::rat) powi (- 1074 - 1) = 2 powi (- 1075)" by simp
    also have "\<dots> \<le> \<bar>x\<bar> * 2 powi (- 53) + 2 powi (- 1075)" by simp
    finally show ?thesis .
  qed
qed





lemma round_to_float64_abs_le:
  "\<bar>round_to_float64 x\<bar> \<le> \<bar>x\<bar> + (\<bar>x\<bar> * 2 powi (- 53) + 2 powi (- 1075))"
  using round_to_float64_error[of x] by linarith






section \<open>Facts about the string functions\<close>

lemma of_char_shift_up:
  "65 \<le> (of_char c :: nat) \<Longrightarrow> (of_char c :: nat) \<le> 90 \<Longrightarrow>
   (of_char (char_of ((of_char c :: nat) + 32)) :: nat) = of_char c + 32"
  by simp

lemma of_char_shift_down:
  "97 \<le> (of_char c :: nat) \<Longrightarrow> (of_char c :: nat) \<le> 122 \<Longrightarrow>
   (of_char (char_of ((of_char c :: nat) - 32)) :: nat) = of_char c - 32"
  by simp

lemma of_char_lower_char:
  "(of_char (lower_char c) :: nat) = (if py_isupper c then of_char c + 32 else of_char c)"
  by (auto simp: lower_char_def py_isupper_def Let_def)

lemma of_char_upper_char:
  "(of_char (upper_char c) :: nat) = (if py_islower c then of_char c - 32 else of_char c)"
  by (auto simp: upper_char_def py_islower_def Let_def)

lemma char_eq_of_char: "c = d \<longleftrightarrow> (of_char c :: nat) = of_char d"
  by (metis char_of_char)

lemma lower_char_idem [simp]: "lower_char (lower_char c) = lower_char c"
  by (auto simp: char_eq_of_char of_char_lower_char py_isupper_def Let_def)

lemma upper_char_idem [simp]: "upper_char (upper_char c) = upper_char c"
  by (auto simp: char_eq_of_char of_char_upper_char py_islower_def Let_def)

lemma lower_upper_char [simp]: "lower_char (upper_char c) = lower_char c"
  by (auto simp: char_eq_of_char of_char_lower_char of_char_upper_char py_isupper_def
      py_islower_def Let_def)

lemma upper_lower_char [simp]: "upper_char (lower_char c) = upper_char c"
  by (auto simp: char_eq_of_char of_char_lower_char of_char_upper_char py_isupper_def
      py_islower_def Let_def)

lemma py_iscased_lower_char [simp]: "py_iscased (lower_char c) = py_iscased c"
  by (auto simp: py_iscased_def py_isupper_def py_islower_def Let_def of_char_lower_char)

lemma py_iscased_upper_char [simp]: "py_iscased (upper_char c) = py_iscased c"
  by (auto simp: py_iscased_def py_isupper_def py_islower_def Let_def of_char_upper_char)

lemma py_isspace_lower_char [simp]: "py_isspace (lower_char c) = py_isspace c"
  by (auto simp: py_isspace_def py_isupper_def Let_def of_char_lower_char)

lemma py_isspace_upper_char [simp]: "py_isspace (upper_char c) = py_isspace c"
  by (auto simp: py_isspace_def py_islower_def Let_def of_char_upper_char)

lemma space_lower_char: "py_isspace c \<Longrightarrow> lower_char c = c"
  by (auto simp: lower_char_def py_isspace_def py_isupper_def Let_def)

lemma space_upper_char: "py_isspace c \<Longrightarrow> upper_char c = c"
  by (auto simp: upper_char_def py_isspace_def py_islower_def Let_def)

lemma space_not_cased: "py_isspace c \<Longrightarrow> \<not> py_iscased c"
  by (auto simp: py_iscased_def py_isspace_def py_isupper_def py_islower_def Let_def)


lemma lower_title_from: "map lower_char (title_from b s) = map lower_char s"
  by (induction s arbitrary: b) simp_all

lemma length_title_from [simp]: "length (title_from b s) = length s"
  by (induction s arbitrary: b) simp_all


lemma all_space_title_from: "(\<forall>x\<in>set (title_from b s). py_isspace x) = (\<forall>x\<in>set s. py_isspace x)"
  by (induction s arbitrary: b) simp_all


lemma str_lower_title: "str_lower (str_title s) = str_lower s"
  by (simp add: str_title_def str_lower_def lower_title_from)

lemma str_lower_idem: "str_lower (str_lower s) = str_lower s"
  by (simp add: str_lower_def)

text \<open>Stripping on the left and on the right.\<close>

lemma lstrip_title:
  "dropWhile py_isspace (title_from False s) = title_from False (dropWhile py_isspace s)"
  by (induction s) (simp_all add: space_upper_char space_not_cased)

lemma rstrip_Cons:
  "rev (dropWhile P (rev (c # cs))) =
     (if \<forall>x\<in>set cs. P x then (if P c then [] else [c]) else c # rev (dropWhile P (rev cs)))"
  by (simp add: dropWhile_append)

lemma rstrip_Nil_iff: "rev (dropWhile P (rev s)) = [] \<longleftrightarrow> (\<forall>x\<in>set s. P x)"
  by (simp add: dropWhile_eq_Nil_conv)

lemma rstrip_title:
  "rev (dropWhile py_isspace (rev (title_from b s))) =
     title_from b (rev (dropWhile py_isspace (rev s)))"
proof (induction s arbitrary: b)
  case Nil
  show ?case by simp
next
  case (Cons c cs)
  define h where "h = (if b then lower_char c else upper_char c)"
  have t: "title_from b (c # cs) = h # title_from (py_iscased c) cs"
    by (simp add: h_def)
  have sp: "py_isspace h = py_isspace c" by (simp add: h_def)
  show ?case
  proof (cases "\<forall>x\<in>set cs. py_isspace x")
    case True
    then have l: "rev (dropWhile py_isspace (rev (title_from b (c # cs)))) = (if py_isspace c then [] else [h])"
      unfolding t rstrip_Cons by (simp add: all_space_title_from sp)
    from True have r: "rev (dropWhile py_isspace (rev (c # cs))) = (if py_isspace c then [] else [c])"
      unfolding rstrip_Cons by simp
    show ?thesis unfolding l r by (simp add: h_def)
  next
    case False
    then have l: "rev (dropWhile py_isspace (rev (title_from b (c # cs)))) =
        h # rev (dropWhile py_isspace (rev (title_from (py_iscased c) cs)))"
      unfolding t rstrip_Cons by (simp add: all_space_title_from)
    from False have r: "rev (dropWhile py_isspace (rev (c # cs))) = c # rev (dropWhile py_isspace (rev cs))"
      unfolding rstrip_Cons by simp
    show ?thesis unfolding l r Cons.IH by (simp add: h_def)
  qed
qed

lemma str_strip_title: "str_strip (str_title s) = str_title (str_strip s)"
  by (simp add: str_strip_def str_title_def lstrip_title rstrip_title)

lemma str_strip_lower: "str_strip (str_lower s) = str_lower (str_strip s)"
  by (simp add: str_strip_def str_lower_def dropWhile_map rev_map comp_def)

lemma rstrip_keeps_head:
  "\<not> P x \<Longrightarrow> rev (dropWhile P (rev (x # xs))) = x # rev (dropWhile P (rev xs))"
  unfolding rstrip_Cons by (simp add: dropWhile_eq_Nil_conv)

lemma str_strip_idem: "str_strip (str_strip s) = str_strip s"
proof -
  define t where "t = dropWhile py_isspace s"
  have l: "dropWhile py_isspace (rev (dropWhile py_isspace (rev t))) = rev (dropWhile py_isspace (rev t))"
  proof (cases t)
    case Nil
    then show ?thesis by simp
  next
    case (Cons x xs)
    then have nx: "\<not> py_isspace x"
      unfolding t_def by (metis hd_dropWhile list.distinct(1) list.sel(1))
    have "rev (dropWhile py_isspace (rev (x # xs))) = x # rev (dropWhile py_isspace (rev xs))"
      using nx by (rule rstrip_keeps_head[of py_isspace x xs])
    then show ?thesis unfolding Cons using nx by simp
  qed
  show ?thesis
    unfolding str_strip_def t_def[symmetric] l by (simp add: dropWhile_idem)
qed

section \<open>The stages inside main\<close>

lemma main_Inr:
  "main copy_on_write parse df = Inr out \<longleftrightarrow>
     (\<exists>t. standardize_formats parse
            (df\<lparr>rows := handle_missing_values copy_on_write (remove_duplicates (rows df))\<rparr>) = Inr t \<and>
          out = t\<lparr>rows := add_calculated_fields (validate_data_ranges (rows t))\<rparr>)"
  by (auto simp: main_def Let_def split: sum.splits)

lemma add_calculated_fields_keeps:
  "r \<in> set (add_calculated_fields df) \<Longrightarrow>
   \<exists>r0\<in>set df. loan_id r = loan_id r0 \<and> customer_id r = customer_id r0 \<and>
     loan_amount r = loan_amount r0 \<and> annual_income r = annual_income r0 \<and>
     monthly_payment r = monthly_payment r0 \<and> interest_rate r = interest_rate r0 \<and>
     credit_score r = credit_score r0 \<and> employment_length r = employment_length r0 \<and>
     loan_status r = loan_status r0 \<and> purpose r = purpose r0 \<and>
     application_date r = application_date r0 \<and> approval_date r = approval_date r0 \<and>
     disbursement_date r = disbursement_date r0 \<and> loan_term r = loan_term r0"
  by (auto simp: add_calculated_fields_def)











section \<open>Deduplication keeps first occurrences\<close>

lemma drop_duplicates_index:
  "drop_duplicates key seen xs =
     map (nth xs) (filter (\<lambda>i. key (xs ! i) \<notin> set seen \<and> (\<forall>j<i. key (xs ! j) \<noteq> key (xs ! i)))
       [0..<length xs])"
proof (induction xs arbitrary: seen)
  case Nil
  show ?case by simp
next
  case (Cons x xs)
  have upt: "[0..<Suc (length xs)] = 0 # map Suc [0..<length xs]"
    by (simp add: upt_conv_Cons map_Suc_upt del: upt_Suc)
  have all_Suc: "\<And>i. (\<forall>j<Suc i. key ((x # xs) ! j) \<noteq> key (xs ! i)) \<longleftrightarrow>
      (key x \<noteq> key (xs ! i) \<and> (\<forall>j<i. key (xs ! j) \<noteq> key (xs ! i)))"
    by (auto simp: less_Suc_eq_0_disj)
  show ?case
  proof (cases "key x \<in> set seen")
    case True
    have "\<And>i. (key (xs ! i) \<notin> set seen \<and> key x \<noteq> key (xs ! i) \<and>
             (\<forall>j<i. key (xs ! j) \<noteq> key (xs ! i))) \<longleftrightarrow>
          (key (xs ! i) \<notin> set seen \<and> (\<forall>j<i. key (xs ! j) \<noteq> key (xs ! i)))"
      using True by auto
    with True show ?thesis
      by (simp add: upt filter_map comp_def all_Suc Cons.IH del: upt_Suc)
  next
    case False
    have "\<And>i. (key (xs ! i) \<notin> set seen \<and> key x \<noteq> key (xs ! i) \<and>
             (\<forall>j<i. key (xs ! j) \<noteq> key (xs ! i))) \<longleftrightarrow>
          (key (xs ! i) \<notin> set (key x # seen) \<and> (\<forall>j<i. key (xs ! j) \<noteq> key (xs ! i)))"
      by auto
    with False show ?thesis
      by (simp add: upt filter_map comp_def all_Suc Cons.IH del: upt_Suc)
  qed
qed

lemma drop_duplicates_subseq: "subseq (drop_duplicates key seen xs) xs"
  by (induction xs arbitrary: seen) auto

lemma drop_duplicates_set:
  "key ` set (drop_duplicates key seen xs) = key ` set xs - set seen"
  by (induction xs arbitrary: seen) auto

lemma drop_duplicates_distinct: "distinct (map key (drop_duplicates key seen xs))"
proof (induction xs arbitrary: seen)
  case Nil
  show ?case by simp
next
  case (Cons x xs)
  have "key x \<notin> key ` set (drop_duplicates key (key x # seen) xs)"
    by (simp add: drop_duplicates_set)
  with Cons.IH show ?case by simp
qed

lemma drop_duplicates_first:
  "find (\<lambda>r. key r = k) xs = Some r \<Longrightarrow> k \<notin> set seen \<Longrightarrow>
   filter (\<lambda>r. key r = k) (drop_duplicates key seen xs) = [r]"
proof (induction xs arbitrary: seen)
  case Nil
  then show ?case by simp
next
  case (Cons x xs)
  show ?case
  proof (cases "key x = k")
    case True
    with Cons.prems have r: "x = r" by simp
    have "k \<notin> key ` set (drop_duplicates key (k # seen) xs)"
      by (simp add: drop_duplicates_set)
    then have "filter (\<lambda>r. key r = k) (drop_duplicates key (k # seen) xs) = []"
      by (auto simp: filter_empty_conv)
    with True r Cons.prems show ?thesis by simp
  next
    case False
    with Cons.prems have f: "find (\<lambda>r. key r = k) xs = Some r" by simp
    from False Cons.prems have "k \<notin> set (key x # seen)" by auto
    from Cons.IH[OF f this] Cons.IH[OF f Cons.prems(2)] False show ?thesis by simp
  qed
qed

text \<open>
  C4. \<open>remove_duplicates\<close> keeps exactly the rows at the positions where the key
  (\<open>customer_id\<close>, \<open>loan_amount\<close>, \<open>application_date\<close>) occurs for the first time, in their
  original order; the survivors have pairwise different keys, every key of the input
  survives, and the one survivor of a group is the first row of that group. A missing
  key component is an ordinary value of the key: two rows that agree on the other
  components and both miss \<open>application_date\<close> are duplicates.
\<close>

theorem remove_duplicates_keeps_first:
  "remove_duplicates df =
     map (nth df) (filter (\<lambda>i. \<forall>j<i. dedup_key (df ! j) \<noteq> dedup_key (df ! i)) [0..<length df])
   \<and> subseq (remove_duplicates df) df
   \<and> distinct (map dedup_key (remove_duplicates df))
   \<and> dedup_key ` set (remove_duplicates df) = dedup_key ` set df
   \<and> (find (\<lambda>r. dedup_key r = k) df = Some r \<longrightarrow>
        filter (\<lambda>r. dedup_key r = k) (remove_duplicates df) = [r])"
  unfolding remove_duplicates_def
  using drop_duplicates_index[of dedup_key "[]" df] drop_duplicates_subseq[of dedup_key "[]" df]
    drop_duplicates_distinct[of dedup_key "[]" df] drop_duplicates_set[of dedup_key "[]" df]
    drop_duplicates_first[of dedup_key k df r "[]"]
  by simp

theorem remove_duplicates_keeps_first_witness:
  "find (\<lambda>r. dedup_key r = (Some ''C1'', Some 5000, None)) [row_a, row_b, row_a2, row_b] = Some row_a
   \<and> filter (\<lambda>r. dedup_key r = (Some ''C1'', Some 5000, None))
        (remove_duplicates [row_a, row_b, row_a2, row_b]) = [row_a]
   \<and> remove_duplicates [row_a, row_b, row_a2, row_b] = [row_a, row_b]
   \<and> row_a2 \<noteq> row_a"
proof -
  have f: "find (\<lambda>r. dedup_key r = (Some ''C1'', Some 5000, None)) [row_a, row_b, row_a2, row_b] = Some row_a"
    by (simp add: dedup_key_def row_a_def blank_def)
  have e: "remove_duplicates [row_a, row_b, row_a2, row_b] = [row_a, row_b]"
    by (simp add: remove_duplicates_def dedup_key_def row_a_def row_b_def row_a2_def blank_def)
  have n: "row_a2 \<noteq> row_a"
    by (simp add: row_a_def row_a2_def blank_def)
  from remove_duplicates_keeps_first[of "[row_a, row_b, row_a2, row_b]" "(Some ''C1'', Some 5000, None)" row_a] f e n
  show ?thesis by simp
qed

section \<open>Range validation\<close>

lemma gt_iff: "gt c b \<longleftrightarrow> (\<exists>v. c = Some v \<and> b < v)"
  by (cases c) (simp_all add: gt_def)

lemma ge_iff: "ge c b \<longleftrightarrow> (\<exists>v. c = Some v \<and> b \<le> v)"
  by (cases c) (simp_all add: ge_def)

lemma le_iff: "le c b \<longleftrightarrow> (\<exists>v. c = Some v \<and> v \<le> b)"
  by (cases c) (simp_all add: le_def)

lemma validate_data_ranges_filter:
  "validate_data_ranges df = filter in_valid_ranges df"
proof -
  have "\<And>r. (gt (loan_amount r) 0 \<and> ge (interest_rate r) 0 \<and> le (interest_rate r) 50 \<and>
         ge (credit_score r) 300 \<and> le (credit_score r) 850 \<and> gt (annual_income r) 0) = in_valid_ranges r"
    by (auto simp: in_valid_ranges_def gt_iff ge_iff le_iff)
  then show ?thesis
    by (simp add: validate_data_ranges_def Let_def)
qed

text \<open>
  C6. \<open>validate_data_ranges\<close> keeps exactly the rows on which all four predicates hold, in
  their order; the printed count is the number of rows that fail at least one predicate,
  each counted once; every row of the result satisfies all four predicates.
\<close>

theorem validate_data_ranges_spec:
  "validate_data_ranges df = filter in_valid_ranges df
   \<and> subseq (validate_data_ranges df) df
   \<and> validate_data_ranges_removed df = int (length (filter (\<lambda>r. \<not> in_valid_ranges r) df))
   \<and> (\<forall>r\<in>set (validate_data_ranges df). in_valid_ranges r)"
  by (simp add: validate_data_ranges_filter validate_data_ranges_removed_def length_filter_compl)

lemma row_ok_in_valid_ranges: "in_valid_ranges row_ok"
  by (simp add: in_valid_ranges_def row_ok_def)

theorem validate_data_ranges_spec_witness:
  "validate_data_ranges
     [row_ok, row_ok\<lparr>interest_rate := Some 75\<rparr>, row_ok\<lparr>loan_amount := Some 0, annual_income := None\<rparr>]
     = [row_ok]
   \<and> validate_data_ranges_removed
     [row_ok, row_ok\<lparr>interest_rate := Some 75\<rparr>, row_ok\<lparr>loan_amount := Some 0, annual_income := None\<rparr>]
     = 2"
proof -
  have a: "\<not> in_valid_ranges (row_ok\<lparr>interest_rate := Some 75\<rparr>)"
    by (simp add: in_valid_ranges_def)
  have b: "\<not> in_valid_ranges (row_ok\<lparr>loan_amount := Some 0, annual_income := None\<rparr>)"
    by (simp add: in_valid_ranges_def)
  from validate_data_ranges_spec[of
      "[row_ok, row_ok\<lparr>interest_rate := Some 75\<rparr>, row_ok\<lparr>loan_amount := Some 0, annual_income := None\<rparr>]"]
    a b row_ok_in_valid_ranges
  show ?thesis by simp
qed

section \<open>Derived fields\<close>

lemma cut_loan_category:
  "cut [Fin 0, Fin 10000, Fin 25000, PosInf] [''Small'', ''Medium'', ''Large''] c =
     (case c of None \<Rightarrow> None
      | Some a \<Rightarrow> if 0 < a \<and> a \<le> 10000 then Some ''Small''
                 else if 10000 < a \<and> a \<le> 25000 then Some ''Medium''
                 else if 25000 < a then Some ''Large'' else None)"
  by (auto simp: cut_def searchsorted_left_def split: option.splits)

lemma cut_credit_band:
  "cut [Fin 0, Fin 600, Fin 650, Fin 700, Fin 750, Fin 850]
       [''Very Poor'', ''Poor'', ''Fair'', ''Good'', ''Excellent''] c =
     (case c of None \<Rightarrow> None
      | Some s \<Rightarrow> if 0 < s \<and> s \<le> 600 then Some ''Very Poor''
                 else if 600 < s \<and> s \<le> 650 then Some ''Poor''
                 else if 650 < s \<and> s \<le> 700 then Some ''Fair''
                 else if 700 < s \<and> s \<le> 750 then Some ''Good''
                 else if 750 < s \<and> s \<le> 850 then Some ''Excellent'' else None)"
  by (auto simp: cut_def searchsorted_left_def split: option.splits)

lemma add_calculated_fields_nth:
  "i < length df \<Longrightarrow>
   loan_category (add_calculated_fields df ! i) =
     cut [Fin 0, Fin 10000, Fin 25000, PosInf] [''Small'', ''Medium'', ''Large''] (loan_amount (df ! i))
   \<and> credit_band (add_calculated_fields df ! i) =
     cut [Fin 0, Fin 600, Fin 650, Fin 700, Fin 750, Fin 850]
       [''Very Poor'', ''Poor'', ''Fair'', ''Good'', ''Excellent''] (credit_score (df ! i))
   \<and> loan_to_income (add_calculated_fields df ! i) =
     map_option (round_decimals 4) (cell_div (loan_amount (df ! i)) (annual_income (df ! i)))
   \<and> total_interest (add_calculated_fields df ! i) =
     map_option (round_decimals 2)
       (cell_sub (cell_mul (monthly_payment (df ! i)) (loan_term (df ! i))) (loan_amount (df ! i)))"
  by (simp add: add_calculated_fields_def)

text \<open>
  C8. The buckets are left-open and right-closed. \<open>loan_category\<close> is Small on (0, 10000],
  Medium on (10000, 25000], Large above 25000; \<open>credit_band\<close> is Very Poor on (0, 600], Poor
  on (600, 650], Fair on (650, 700], Good on (700, 750], Excellent on (750, 850]; outside
  these intervals the cell is missing. So 10000 is Small, 10000.01 is Medium, 650 is Poor
  and 651 is Fair, and a row inside the validated ranges gets a label of each family.
\<close>

theorem add_calculated_fields_buckets:
  "i < length df \<Longrightarrow>
   loan_category (add_calculated_fields df ! i) =
     (case loan_amount (df ! i) of None \<Rightarrow> None
      | Some a \<Rightarrow> if 0 < a \<and> a \<le> 10000 then Some ''Small''
                 else if 10000 < a \<and> a \<le> 25000 then Some ''Medium''
                 else if 25000 < a then Some ''Large'' else None)
   \<and> credit_band (add_calculated_fields df ! i) =
     (case credit_score (df ! i) of None \<Rightarrow> None
      | Some s \<Rightarrow> if 0 < s \<and> s \<le> 600 then Some ''Very Poor''
                 else if 600 < s \<and> s \<le> 650 then Some ''Poor''
                 else if 650 < s \<and> s \<le> 700 then Some ''Fair''
                 else if 700 < s \<and> s \<le> 750 then Some ''Good''
                 else if 750 < s \<and> s \<le> 850 then Some ''Excellent'' else None)
   \<and> (loan_amount (df ! i) = Some 10000 \<longrightarrow>
        loan_category (add_calculated_fields df ! i) = Some ''Small'')
   \<and> (loan_amount (df ! i) = Some (1000001 / 100) \<longrightarrow>
        loan_category (add_calculated_fields df ! i) = Some ''Medium'')
   \<and> (credit_score (df ! i) = Some 650 \<longrightarrow>
        credit_band (add_calculated_fields df ! i) = Some ''Poor'')
   \<and> (credit_score (df ! i) = Some 651 \<longrightarrow>
        credit_band (add_calculated_fields df ! i) = Some ''Fair'')
   \<and> (in_valid_ranges (df ! i) \<longrightarrow>
        loan_category (add_calculated_fields df ! i) \<in> {Some ''Small'', Some ''Medium'', Some ''Large''}
        \<and> credit_band (add_calculated_fields df ! i) \<in>
            {Some ''Very Poor'', Some ''Poor'', Some ''Fair'', Some ''Good'', Some ''Excellent''})"
proof -
  assume i: "i < length df"
  have lc: "loan_category (add_calculated_fields df ! i) =
     (case loan_amount (df ! i) of None \<Rightarrow> None
      | Some a \<Rightarrow> if 0 < a \<and> a \<le> 10000 then Some ''Small''
                 else if 10000 < a \<and> a \<le> 25000 then Some ''Medium''
                 else if 25000 < a then Some ''Large'' else None)"
    using add_calculated_fields_nth[OF i] by (simp only: cut_loan_category)
  have cb: "credit_band (add_calculated_fields df ! i) =
     (case credit_score (df ! i) of None \<Rightarrow> None
      | Some s \<Rightarrow> if 0 < s \<and> s \<le> 600 then Some ''Very Poor''
                 else if 600 < s \<and> s \<le> 650 then Some ''Poor''
                 else if 650 < s \<and> s \<le> 700 then Some ''Fair''
                 else if 700 < s \<and> s \<le> 750 then Some ''Good''
                 else if 750 < s \<and> s \<le> 850 then Some ''Excellent'' else None)"
    using add_calculated_fields_nth[OF i] by (simp only: cut_credit_band)
  have e1: "loan_amount (df ! i) = Some 10000 \<longrightarrow>
        loan_category (add_calculated_fields df ! i) = Some ''Small''"
    by (simp add: lc)
  have e2: "loan_amount (df ! i) = Some (1000001 / 100) \<longrightarrow>
        loan_category (add_calculated_fields df ! i) = Some ''Medium''"
    by (simp add: lc)
  have e3: "credit_score (df ! i) = Some 650 \<longrightarrow>
        credit_band (add_calculated_fields df ! i) = Some ''Poor''"
    by (simp add: cb)
  have e4: "credit_score (df ! i) = Some 651 \<longrightarrow>
        credit_band (add_calculated_fields df ! i) = Some ''Fair''"
    by (simp add: cb)
  have v1: "in_valid_ranges (df ! i) \<longrightarrow>
        loan_category (add_calculated_fields df ! i) \<in> {Some ''Small'', Some ''Medium'', Some ''Large''}"
    unfolding lc in_valid_ranges_def by (auto split: option.splits)
  have v2: "in_valid_ranges (df ! i) \<longrightarrow>
        credit_band (add_calculated_fields df ! i) \<in>
            {Some ''Very Poor'', Some ''Poor'', Some ''Fair'', Some ''Good'', Some ''Excellent''}"
    unfolding cb in_valid_ranges_def by (auto split: option.splits)
  from lc cb e1 e2 e3 e4 v1 v2 show ?thesis by blast
qed

theorem add_calculated_fields_buckets_witness:
  "loan_category (add_calculated_fields [row_ok\<lparr>loan_amount := Some 10000, credit_score := Some 650\<rparr>] ! 0)
     = Some ''Small''
   \<and> credit_band (add_calculated_fields [row_ok\<lparr>loan_amount := Some 10000, credit_score := Some 650\<rparr>] ! 0)
     = Some ''Poor''
   \<and> loan_category (add_calculated_fields
       [row_ok\<lparr>loan_amount := Some (1000001 / 100), credit_score := Some 651\<rparr>] ! 0) = Some ''Medium''
   \<and> credit_band (add_calculated_fields
       [row_ok\<lparr>loan_amount := Some (1000001 / 100), credit_score := Some 651\<rparr>] ! 0) = Some ''Fair''"
  using add_calculated_fields_buckets[of 0 "[row_ok\<lparr>loan_amount := Some 10000, credit_score := Some 650\<rparr>]"]
    add_calculated_fields_buckets[of 0 "[row_ok\<lparr>loan_amount := Some (1000001 / 100), credit_score := Some 651\<rparr>]"]
  by simp

text \<open>
  C10. A row that misses \<open>loan_amount\<close>, \<open>interest_rate\<close>, \<open>credit_score\<close> or
  \<open>annual_income\<close> does not pass \<open>validate_data_ranges\<close>, so none of the four is missing in
  its result, nor in the table \<open>main\<close> produces, whether or not the median fill of
  \<open>handle_missing_values\<close> found a value.
\<close>

theorem validate_data_ranges_drops_missing:
  "(loan_amount r = None \<or> interest_rate r = None \<or> credit_score r = None \<or> annual_income r = None
      \<longrightarrow> r \<notin> set (validate_data_ranges df))
   \<and> (\<forall>r\<in>set (validate_data_ranges df).
        loan_amount r \<noteq> None \<and> interest_rate r \<noteq> None \<and> credit_score r \<noteq> None \<and>
        annual_income r \<noteq> None)
   \<and> (main copy_on_write parse df0 = Inr out \<longrightarrow>
        (\<forall>r\<in>set (rows out). loan_amount r \<noteq> None \<and> interest_rate r \<noteq> None \<and> credit_score r \<noteq> None \<and>
           annual_income r \<noteq> None))"
proof -
  have a: "\<And>r df. r \<in> set (validate_data_ranges df) \<Longrightarrow>
      loan_amount r \<noteq> None \<and> interest_rate r \<noteq> None \<and> credit_score r \<noteq> None \<and>
      annual_income r \<noteq> None"
    by (auto simp: validate_data_ranges_filter in_valid_ranges_def)
  have b: "main copy_on_write parse df0 = Inr out \<longrightarrow>
        (\<forall>r\<in>set (rows out). loan_amount r \<noteq> None \<and> interest_rate r \<noteq> None \<and> credit_score r \<noteq> None \<and>
           annual_income r \<noteq> None)"
  proof (intro impI ballI)
    fix r assume m: "main copy_on_write parse df0 = Inr out" and r: "r \<in> set (rows out)"
    from m obtain t0 where "out = t0\<lparr>rows := add_calculated_fields (validate_data_ranges (rows t0))\<rparr>"
      unfolding main_Inr by blast
    then obtain t where out: "rows out = add_calculated_fields (validate_data_ranges t)"
      by simp
    from r out have "r \<in> set (add_calculated_fields (validate_data_ranges t))" by simp
    from add_calculated_fields_keeps[OF this]
    obtain r0 where "r0 \<in> set (validate_data_ranges t)" "loan_amount r = loan_amount r0"
      "interest_rate r = interest_rate r0" "credit_score r = credit_score r0"
      "annual_income r = annual_income r0" by blast
    with a[of r0 t] show "loan_amount r \<noteq> None \<and> interest_rate r \<noteq> None \<and>
      credit_score r \<noteq> None \<and> annual_income r \<noteq> None" by simp
  qed
  from a b show ?thesis by blast
qed

theorem validate_data_ranges_drops_missing_witness:
  "credit_score row_nocs = None
   \<and> map credit_score (handle_missing_values False [row_nocs]) = [None]
   \<and> row_nocs \<notin> set (validate_data_ranges [row_ok, row_nocs])
   \<and> map_sum id rows (main False iso_parser (read_csv [row_nocs])) = Inr []"
proof -
  have c: "credit_score row_nocs = None" by (simp add: row_nocs_def)
  have h: "map credit_score (handle_missing_values False [row_nocs]) = [None]" by code_simp
  have m: "map_sum id rows (main False iso_parser (read_csv [row_nocs])) = Inr []" by code_simp
  from validate_data_ranges_drops_missing[of row_nocs "[row_ok, row_nocs]"] c h m
  show ?thesis by simp
qed

section \<open>Format standardization\<close>







section \<open>Missing values\<close>







section \<open>Calculated amounts\<close>




section \<open>The loan status\<close>













section \<open>The whole run, row by row\<close>



lemma in_valid_ranges_standardize_row [simp]:
  "in_valid_ranges (standardize_row ra rb rc r) = in_valid_ranges r"
  by (simp add: in_valid_ranges_def standardize_row_def)


section \<open>Keys of the output\<close>







end
